theory Spec2Isabelle
  imports Complex_Main
begin

section \<open>Task-space regions (prpy/tsr/tsr.py)\<close>

text \<open>
  A shallow embedding of the classes \<^verbatim>\<open>TSR\<close> and \<^verbatim>\<open>TSRChain\<close>.

  Numbers. A numpy float is modelled as an exact real or the value NaN: rounding and
  the infinities are not modelled. Arithmetic with NaN gives NaN, every comparison with
  NaN is false, as in IEEE 754.

  Arrays. A two-dimensional \<^verbatim>\<open>ndarray\<close> is the list of its rows. The empty list
  stands for the one-dimensional empty array, which is what \<^verbatim>\<open>numpy.array([])\<close> builds.

  Exceptions are values of the type \<open>error\<close>; a function that can raise returns
  \<open>error + 'a\<close> with \<open>Inl\<close> for the exception.
\<close>

subsection \<open>Floats\<close>

datatype pyfloat = Fl real | NaN

fun isnan :: "pyfloat \<Rightarrow> bool" where
  "isnan NaN = True"
| "isnan (Fl _) = False"

fun fadd :: "pyfloat \<Rightarrow> pyfloat \<Rightarrow> pyfloat" where
  "fadd (Fl a) (Fl b) = Fl (a + b)"
| "fadd _ _ = NaN"

fun fsub :: "pyfloat \<Rightarrow> pyfloat \<Rightarrow> pyfloat" where
  "fsub (Fl a) (Fl b) = Fl (a - b)"
| "fsub _ _ = NaN"

fun fmul :: "pyfloat \<Rightarrow> pyfloat \<Rightarrow> pyfloat" where
  "fmul (Fl a) (Fl b) = Fl (a * b)"
| "fmul _ _ = NaN"

fun fdiv2 :: "pyfloat \<Rightarrow> pyfloat" where
  "fdiv2 (Fl a) = Fl (a / 2)"
| "fdiv2 NaN = NaN"

text \<open>Python's \<^verbatim>\<open>%\<close> on floats takes the sign of the divisor: \<open>x - m * floor (x / m)\<close>.
  numpy gives NaN for a zero divisor.\<close>

definition rmod :: "real \<Rightarrow> real \<Rightarrow> real" where
  "rmod x m = x - m * of_int \<lfloor>x / m\<rfloor>"

fun fmod :: "pyfloat \<Rightarrow> pyfloat \<Rightarrow> pyfloat" where
  "fmod (Fl a) (Fl m) = (if m = 0 then NaN else Fl (rmod a m))"
| "fmod _ _ = NaN"

fun fge :: "pyfloat \<Rightarrow> pyfloat \<Rightarrow> bool" where
  "fge (Fl a) (Fl b) = (a \<ge> b)"
| "fge _ _ = False"

fun fle :: "pyfloat \<Rightarrow> pyfloat \<Rightarrow> bool" where
  "fle (Fl a) (Fl b) = (a \<le> b)"
| "fle _ _ = False"

fun fgt :: "pyfloat \<Rightarrow> pyfloat \<Rightarrow> bool" where
  "fgt (Fl a) (Fl b) = (a > b)"
| "fgt _ _ = False"

fun flt :: "pyfloat \<Rightarrow> pyfloat \<Rightarrow> bool" where
  "flt (Fl a) (Fl b) = (a < b)"
| "flt _ _ = False"

definition EPSILON :: pyfloat where
  "EPSILON = Fl (1 / 1000)"

definition PI :: pyfloat where
  "PI = Fl pi"

subsection \<open>Exceptions, arrays\<close>

text \<open>\<open>External\<close> is an exception of an imported function. \<open>Unmodelled\<close> marks a call
  on a value outside the types of the model (a manipulator index that is not an int),
  where Python goes on with a value the model has no type for.\<close>

datatype error =
    ValueError string
  | TypeError string
  | IndexError
  | KeyError string
  | External string
  | Unmodelled string

type_synonym ndarray = "pyfloat list list"

type_synonym pose6 = "pyfloat list"

definition eye4 :: ndarray where
  "eye4 = [[Fl 1, Fl 0, Fl 0, Fl 0],
           [Fl 0, Fl 1, Fl 0, Fl 0],
           [Fl 0, Fl 0, Fl 1, Fl 0],
           [Fl 0, Fl 0, Fl 0, Fl 1]]"

definition zeros62 :: ndarray where
  "zeros62 = replicate 6 [Fl 0, Fl 0]"

text \<open>\<^verbatim>\<open>A[i, j]\<close>: an index out of range raises IndexError.\<close>

definition at2 :: "ndarray \<Rightarrow> nat \<Rightarrow> nat \<Rightarrow> error + pyfloat" where
  "at2 A i j =
     (if i < length A then
        (if j < length (A ! i) then Inr (A ! i ! j) else Inl IndexError)
      else Inl IndexError)"

text \<open>\<^verbatim>\<open>A[:, j]\<close>: a column of a two-dimensional array. The rows of an array all have
  the same length, so the column exists when the first row has it.\<close>

definition column :: "ndarray \<Rightarrow> nat \<Rightarrow> error + pyfloat list" where
  "column A j =
     (case A of
        [] \<Rightarrow> Inl IndexError
      | r # _ \<Rightarrow> if j < length r then Inr (map (\<lambda>row. row ! j) A) else Inl IndexError)"

text \<open>The truth value of an array, as \<^verbatim>\<open>not a\<close> and \<^verbatim>\<open>if a\<close> ask for it: the
  element of an array of one element, False for an empty array, and ValueError for an
  array of more than one element.\<close>

definition ambiguous :: string where
  "ambiguous = ''The truth value of an array with more than one element is ambiguous''"

fun array_truth :: "bool list \<Rightarrow> error + bool" where
  "array_truth [] = Inr False"
| "array_truth [b] = Inr b"
| "array_truth _ = Inl (ValueError ambiguous)"

subsection \<open>The TSR record and its constructor\<close>

text \<open>\<open>manipindex\<close> holds a Python int, or the zero-dimensional array that
  \<^verbatim>\<open>numpy.array(k)\<close> builds; \<open>bodyandlink\<close> a Python string or the zero-dimensional
  array \<^verbatim>\<open>numpy.array(s)\<close>.\<close>

datatype pyint = PInt int | NdInt int

datatype pystr = PStr string | NdStr string

fun py_int :: "pyint \<Rightarrow> int" where
  "py_int (PInt k) = k"
| "py_int (NdInt k) = k"

fun py_str :: "pystr \<Rightarrow> string" where
  "py_str (PStr s) = s"
| "py_str (NdStr s) = s"

record tsr =
  T0_w :: ndarray
  Tw_e :: ndarray
  Bw :: ndarray
  manipindex :: pyint
  bodyandlink :: pystr

text \<open>The argument \<^verbatim>\<open>manip\<close>: None, a robot (of which only the index of the active
  manipulator is read), or any other value, which is stored as it is.\<close>

datatype manip_arg = ManipNone | Robot int | ManipIndex pyint

definition range_limit :: pyfloat where
  "range_limit = fadd (fmul (Fl 2) PI) EPSILON"

text \<open>\<^verbatim>\<open>any((Bw[:, 1]-Bw[:, 0]) > 2*pi + EPSILON)\<close>\<close>

definition range_exceeded :: "ndarray \<Rightarrow> error + bool" where
  "range_exceeded B =
     (case column B 1 of
        Inl e \<Rightarrow> Inl e
      | Inr hi \<Rightarrow>
          (case column B 0 of
             Inl e \<Rightarrow> Inl e
           | Inr lo \<Rightarrow> Inr (list_ex (\<lambda>d. fgt d range_limit) (map2 fsub hi lo))))"

definition TSR_init ::
  "ndarray option \<Rightarrow> ndarray option \<Rightarrow> ndarray option \<Rightarrow> manip_arg \<Rightarrow> pystr option
     \<Rightarrow> error + tsr" where
  "TSR_init T0_w_arg Tw_e_arg Bw_arg manip bodyandlink_arg =
     (let T0 = (case T0_w_arg of None \<Rightarrow> eye4 | Some m \<Rightarrow> m);
          Te = (case Tw_e_arg of None \<Rightarrow> eye4 | Some m \<Rightarrow> m);
          mi = (case manip of
                  ManipNone \<Rightarrow> PInt (- 1)
                | Robot active \<Rightarrow> PInt active
                | ManipIndex k \<Rightarrow> k);
          bl = (case bodyandlink_arg of None \<Rightarrow> PStr ''NULL'' | Some s \<Rightarrow> s)
      in case Bw_arg of
           None \<Rightarrow>
             Inr \<lparr>T0_w = T0, Tw_e = Te, Bw = zeros62, manipindex = mi, bodyandlink = bl\<rparr>
         | Some B \<Rightarrow>
             (case range_exceeded B of
                Inl e \<Rightarrow> Inl e
              | Inr True \<Rightarrow> Inl (ValueError ''Bw range must be within 2*PI'')
              | Inr False \<Rightarrow>
                  Inr \<lparr>T0_w = T0, Tw_e = Te, Bw = B, manipindex = mi, bodyandlink = bl\<rparr>))"

subsection \<open>is_valid\<close>

text \<open>\<^verbatim>\<open>(x + pi) % (2*pi) - pi\<close>\<close>

definition wrap :: "pyfloat \<Rightarrow> pyfloat" where
  "wrap x = fsub (fmod (fadd x PI) (fmul (Fl 2) PI)) PI"

text \<open>One element of the comprehensions:
  \<^verbatim>\<open>((x + EPSILON) >= B[i, 0]) and ((x - EPSILON) <= B[i, 1])\<close>\<close>

definition bound_check :: "ndarray \<Rightarrow> nat \<Rightarrow> pyfloat \<Rightarrow> error + bool" where
  "bound_check B i x =
     (case at2 B i 0 of
        Inl e \<Rightarrow> Inl e
      | Inr lo \<Rightarrow>
          if fge (fadd x EPSILON) lo then
            (case at2 B i 1 of
               Inl e \<Rightarrow> Inl e
             | Inr hi \<Rightarrow> Inr (fle (fsub x EPSILON) hi))
          else Inr False)"

text \<open>\<^verbatim>\<open>[... for i, x in enumerate(xs)]\<close>, from index \<open>i\<close> on.\<close>

fun bound_checks :: "ndarray \<Rightarrow> nat \<Rightarrow> pyfloat list \<Rightarrow> error + bool list" where
  "bound_checks B i [] = Inr []"
| "bound_checks B i (x # xs) =
     (case bound_check B i x of
        Inl e \<Rightarrow> Inl e
      | Inr c \<Rightarrow>
          (case bound_checks B (Suc i) xs of
             Inl e \<Rightarrow> Inl e
           | Inr cs \<Rightarrow> Inr (c # cs)))"

text \<open>\<^verbatim>\<open>check[numpy.isnan(xyzrpy)] = True\<close>: a boolean mask must have the length of
  the array it indexes.\<close>

definition set_where :: "bool list \<Rightarrow> bool list \<Rightarrow> error + bool list" where
  "set_where check msk =
     (if length msk = length check then Inr (map2 (\<lambda>c m. m \<or> c) check msk)
      else Inl IndexError)"

text \<open>The slices \<^verbatim>\<open>self.Bw[0:3, :]\<close> and \<^verbatim>\<open>self.Bw[3:6, :]\<close> take two indices, which
  a one-dimensional array does not have.\<close>

definition TSR_is_valid :: "tsr \<Rightarrow> pose6 \<Rightarrow> bool \<Rightarrow> error + bool list" where
  "TSR_is_valid self xyzrpy ignoreNAN =
     (if Bw self = [] then Inl IndexError
      else
        (let Bw_xyz = take 3 (Bw self) in
         case bound_checks Bw_xyz 0 (take 3 xyzrpy) of
           Inl e \<Rightarrow> Inl e
         | Inr xyzcheck \<Rightarrow>
             (let Bw_rpy = map (map wrap) (take 3 (drop 3 (Bw self)));
                  rpy = map wrap (take 3 (drop 3 xyzrpy))
              in case bound_checks Bw_rpy 0 rpy of
                   Inl e \<Rightarrow> Inl e
                 | Inr rpycheck \<Rightarrow>
                     (let check = xyzcheck @ rpycheck
                      in if ignoreNAN then set_where check (map isnan xyzrpy)
                         else Inr check))))"

subsection \<open>Sequencing of calls that can raise\<close>

fun ebind :: "error + 'a \<Rightarrow> ('a \<Rightarrow> error + 'b) \<Rightarrow> error + 'b" where
  "ebind (Inl e) f = Inl e"
| "ebind (Inr x) f = f x"

text \<open>\<^verbatim>\<open>xs[i]\<close> on a list.\<close>

definition at1 :: "'a list \<Rightarrow> nat \<Rightarrow> error + 'a" where
  "at1 xs i = (if i < length xs then Inr (xs ! i) else Inl IndexError)"

text \<open>\<^verbatim>\<open>numpy.dot\<close> of two-dimensional arrays: the rows of the first must be as long
  as the second has rows.\<close>

definition fsum :: "pyfloat list \<Rightarrow> pyfloat" where
  "fsum xs = foldl fadd (Fl 0) xs"

definition ncols :: "ndarray \<Rightarrow> nat" where
  "ncols A = (case A of [] \<Rightarrow> 0 | r # _ \<Rightarrow> length r)"

definition dot :: "ndarray \<Rightarrow> ndarray \<Rightarrow> error + ndarray" where
  "dot A B =
     (if list_all (\<lambda>r. length r = length B) A then
        Inr (map (\<lambda>r. map (\<lambda>j. fsum (map2 fmul r (map (\<lambda>row. row ! j) B))) [0..<ncols B]) A)
      else Inl (ValueError ''shapes not aligned''))"

subsection \<open>What the module imports\<close>

text \<open>
  The functions of \<^verbatim>\<open>kin\<close>, \<^verbatim>\<open>numpy.linalg\<close>, \<^verbatim>\<open>prpy.util\<close> and
  \<^verbatim>\<open>scipy.optimize\<close> that the module calls are parameters of the model: any
  functions, each free to raise. The optimizer is given the objective, the initial
  point and the bounds, and returns the point and the value it found.
\<close>

record externals =
  pose_from_xyzypr :: "pyfloat list \<Rightarrow> error + pyfloat list"
  pose_to_H :: "pyfloat list \<Rightarrow> error + ndarray"
  pose_from_H :: "ndarray \<Rightarrow> error + pyfloat list"
  quat_to_ypr :: "pyfloat list \<Rightarrow> error + pyfloat list"
  linalg_inv :: "ndarray \<Rightarrow> error + ndarray"
  GeodesicDistance :: "ndarray \<Rightarrow> ndarray \<Rightarrow> error + pyfloat"
  fmin_l_bfgs_b ::
    "(pyfloat list \<Rightarrow> error + pyfloat) \<Rightarrow> pyfloat list \<Rightarrow> (pyfloat \<times> pyfloat) list
       \<Rightarrow> error + (pyfloat list \<times> pyfloat)"

subsection \<open>to_transform, to_xyzrpy, contains, distance\<close>

text \<open>The guard \<^verbatim>\<open>if not self.is_valid(xyzrpy)\<close> asks for the truth value of the
  array that \<open>is_valid\<close> returns.\<close>

definition TSR_to_transform :: "externals \<Rightarrow> tsr \<Rightarrow> pose6 \<Rightarrow> error + ndarray" where
  "TSR_to_transform ext self xyzrpy =
     (if length xyzrpy \<noteq> 6 then Inl (ValueError ''vals must be of length 6'')
      else
        ebind (TSR_is_valid self xyzrpy False) (\<lambda>check.
        ebind (array_truth check) (\<lambda>valid.
          if \<not> valid then Inl (ValueError ''Invalid xyzrpy'')
          else
            (let xyzypr = [xyzrpy ! 0, xyzrpy ! 1, xyzrpy ! 2,
                           xyzrpy ! 5, xyzrpy ! 4, xyzrpy ! 3]
             in ebind (pose_from_xyzypr ext xyzypr) (\<lambda>pose.
                ebind (pose_to_H ext pose) (\<lambda>Tw.
                ebind (dot (T0_w self) Tw) (\<lambda>M.
                dot M (Tw_e self))))))))"

definition TSR_to_xyzrpy :: "externals \<Rightarrow> tsr \<Rightarrow> ndarray \<Rightarrow> error + pose6" where
  "TSR_to_xyzrpy ext self transform =
     ebind (linalg_inv ext (T0_w self)) (\<lambda>T0_inv.
     ebind (dot T0_inv transform) (\<lambda>M.
     ebind (linalg_inv ext (Tw_e self)) (\<lambda>Te_inv.
     ebind (dot M Te_inv) (\<lambda>Tw.
     ebind (pose_from_H ext Tw) (\<lambda>pose.
     ebind (quat_to_ypr ext (take 4 (drop 3 pose))) (\<lambda>ypr.
     ebind (at1 pose 0) (\<lambda>x.
     ebind (at1 pose 1) (\<lambda>y.
     ebind (at1 pose 2) (\<lambda>z.
     ebind (at1 ypr 2) (\<lambda>roll.
     ebind (at1 ypr 1) (\<lambda>pitch.
     ebind (at1 ypr 0) (\<lambda>yaw.
       Inr [x, y, z, roll, pitch, yaw]))))))))))))"

definition TSR_contains :: "externals \<Rightarrow> tsr \<Rightarrow> ndarray \<Rightarrow> error + bool list" where
  "TSR_contains ext self transform =
     ebind (TSR_to_xyzrpy ext self transform) (\<lambda>xyzrpy. TSR_is_valid self xyzrpy False)"

text \<open>\<^verbatim>\<open>[(B[i, 0], B[i, 1]) for i in range(6)]\<close>, from row \<open>i\<close>, \<open>n\<close> rows.\<close>

fun bounds_from :: "ndarray \<Rightarrow> nat \<Rightarrow> nat \<Rightarrow> error + (pyfloat \<times> pyfloat) list" where
  "bounds_from B i 0 = Inr []"
| "bounds_from B i (Suc n) =
     ebind (at2 B i 0) (\<lambda>lo.
     ebind (at2 B i 1) (\<lambda>hi.
     ebind (bounds_from B (Suc i) n) (\<lambda>rest. Inr ((lo, hi) # rest))))"

text \<open>\<^verbatim>\<open>(B[:, 0] + B[:, 1])/2\<close>\<close>

definition midpoints :: "ndarray \<Rightarrow> error + pyfloat list" where
  "midpoints B =
     ebind (column B 0) (\<lambda>lo.
     ebind (column B 1) (\<lambda>hi. Inr (map fdiv2 (map2 fadd lo hi))))"

definition TSR_distance :: "externals \<Rightarrow> tsr \<Rightarrow> ndarray \<Rightarrow> error + (pyfloat \<times> pose6)" where
  "TSR_distance ext self transform =
     ebind (TSR_contains ext self transform) (\<lambda>inside.
       if list_all (\<lambda>b. b) inside then
         ebind (TSR_to_xyzrpy ext self transform) (\<lambda>xyzrpy. Inr (Fl 0, xyzrpy))
       else
         (let objective = (\<lambda>bw.
                ebind (TSR_to_transform ext self bw) (\<lambda>bwtrans.
                  GeodesicDistance ext bwtrans transform))
          in ebind (midpoints (Bw self)) (\<lambda>bwinit.
             ebind (bounds_from (Bw self) 0 6) (\<lambda>bwbounds.
             ebind (fmin_l_bfgs_b ext objective bwinit bwbounds) (\<lambda>(bwopt, dist).
               Inr (dist, bwopt))))))"

subsection \<open>Sampling\<close>

text \<open>
  \<^verbatim>\<open>numpy.random.random_sample()\<close> reads the global generator. The model takes the
  sequence \<open>rng\<close> of the numbers the generator will return and the position \<open>k\<close> in
  it, and returns the new position.
\<close>

definition NANBW :: pose6 where
  "NANBW = replicate 6 NaN"

text \<open>The comprehension of \<open>sample_xyzrpy\<close>, from index \<open>i\<close> on.\<close>

fun sample_from ::
  "ndarray \<Rightarrow> (nat \<Rightarrow> real) \<Rightarrow> nat \<Rightarrow> nat \<Rightarrow> pyfloat list \<Rightarrow> (error + pyfloat list) \<times> nat" where
  "sample_from B rng k i [] = (Inr [], k)"
| "sample_from B rng k i (x # xs) =
     (if isnan x then
        (case ebind (at2 B i 0) (\<lambda>lo.
              ebind (at2 B i 1) (\<lambda>hi.
              ebind (at2 B i 0) (\<lambda>lo'. Inr (lo, hi, lo')))) of
           Inl e \<Rightarrow> (Inl e, k)
         | Inr (lo, hi, lo') \<Rightarrow>
             (let v = fadd lo (fmul (fsub hi lo') (Fl (rng k)))
              in case sample_from B rng (Suc k) (Suc i) xs of
                   (Inl e, k') \<Rightarrow> (Inl e, k')
                 | (Inr vs, k') \<Rightarrow> (Inr (v # vs), k')))
      else
        (case sample_from B rng k (Suc i) xs of
           (Inl e, k') \<Rightarrow> (Inl e, k')
         | (Inr vs, k') \<Rightarrow> (Inr (x # vs), k')))"

definition TSR_sample_xyzrpy ::
  "(nat \<Rightarrow> real) \<Rightarrow> nat \<Rightarrow> tsr \<Rightarrow> pose6 option \<Rightarrow> (error + pose6) \<times> nat" where
  "TSR_sample_xyzrpy rng k self xyzrpy_arg =
     (let xyzrpy = (case xyzrpy_arg of None \<Rightarrow> NANBW | Some v \<Rightarrow> v)
      in case TSR_is_valid self xyzrpy True of
           Inl e \<Rightarrow> (Inl e, k)
         | Inr check \<Rightarrow>
             if \<not> list_all (\<lambda>b. b) check
             then (Inl (ValueError ''xyzrpy must be within bounds''), k)
             else sample_from (Bw self) rng k 0 xyzrpy)"

definition TSR_sample ::
  "externals \<Rightarrow> (nat \<Rightarrow> real) \<Rightarrow> nat \<Rightarrow> tsr \<Rightarrow> pose6 option \<Rightarrow> (error + ndarray) \<times> nat" where
  "TSR_sample ext rng k self xyzrpy_arg =
     (case TSR_sample_xyzrpy rng k self xyzrpy_arg of
        (Inl e, k') \<Rightarrow> (Inl e, k')
      | (Inr xyzrpy, k') \<Rightarrow> (TSR_to_transform ext self xyzrpy, k'))"

subsection \<open>Dictionaries\<close>

text \<open>The values that \<open>to_dict\<close> builds and that the JSON and YAML readers return.
  A dict is the list of its items, read with \<open>map_of\<close>.\<close>

datatype pyval =
    VBool bool
  | VInt int
  | VFloat pyfloat
  | VStr string
  | VList "pyval list"
  | VDict "(string \<times> pyval) list"

text \<open>\<^verbatim>\<open>ndarray.tolist()\<close>\<close>

definition tolist :: "ndarray \<Rightarrow> pyval" where
  "tolist A = VList (map (\<lambda>r. VList (map VFloat r)) A)"

text \<open>\<^verbatim>\<open>numpy.array\<close> of a list of lists of numbers, all of one length. What numpy
  makes of any other value (an array of objects, of another dimension) is not modelled.\<close>

fun number :: "pyval \<Rightarrow> pyfloat option" where
  "number (VFloat f) = Some f"
| "number (VInt k) = Some (Fl (of_int k))"
| "number _ = None"

fun numbers :: "pyval \<Rightarrow> pyfloat list option" where
  "numbers (VList xs) =
     (if list_all (\<lambda>x. number x \<noteq> None) xs then Some (map (\<lambda>x. the (number x)) xs) else None)"
| "numbers _ = None"

fun numpy_array :: "pyval \<Rightarrow> error + ndarray" where
  "numpy_array (VList rs) =
     (if list_all (\<lambda>r. numbers r \<noteq> None) rs then
        (let A = map (\<lambda>r. the (numbers r)) rs
         in if list_all (\<lambda>r. length r = ncols A) A then Inr A
            else Inl (Unmodelled ''numpy.array of rows of different lengths''))
      else Inl (Unmodelled ''numpy.array of a list that is not a list of lists of numbers''))"
| "numpy_array _ = Inl (Unmodelled ''numpy.array of a value that is not a list'')"

definition TSR_to_dict :: "tsr \<Rightarrow> (string \<times> pyval) list" where
  "TSR_to_dict self =
     [(''T0_w'', tolist (T0_w self)),
      (''Tw_e'', tolist (Tw_e self)),
      (''Bw'', tolist (Bw self)),
      (''manipindex'', VInt (py_int (manipindex self))),
      (''bodyandlink'', VStr (py_str (bodyandlink self)))]"

text \<open>\<^verbatim>\<open>x[key]\<close>\<close>

definition item :: "(string \<times> pyval) list \<Rightarrow> string \<Rightarrow> error + pyval" where
  "item x key = (case map_of x key of None \<Rightarrow> Inl (KeyError key) | Some v \<Rightarrow> Inr v)"

text \<open>\<^verbatim>\<open>numpy.array(x.get('manipindex', -1))\<close> and
  \<^verbatim>\<open>numpy.array(x.get('bodyandlink', 'NULL'))\<close>: a manipulator index that is not an
  int, a link that is not a string are not modelled.\<close>

definition get_manipindex :: "(string \<times> pyval) list \<Rightarrow> error + pyint" where
  "get_manipindex x =
     (case map_of x ''manipindex'' of
        None \<Rightarrow> Inr (NdInt (- 1))
      | Some (VInt k) \<Rightarrow> Inr (NdInt k)
      | Some _ \<Rightarrow> Inl (Unmodelled ''manipindex that is not an int''))"

definition get_bodyandlink :: "(string \<times> pyval) list \<Rightarrow> error + pystr" where
  "get_bodyandlink x =
     (case map_of x ''bodyandlink'' of
        None \<Rightarrow> Inr (NdStr ''NULL'')
      | Some (VStr s) \<Rightarrow> Inr (NdStr s)
      | Some _ \<Rightarrow> Inl (Unmodelled ''bodyandlink that is not a string''))"

fun TSR_from_dict :: "pyval \<Rightarrow> error + tsr" where
  "TSR_from_dict (VDict x) =
     ebind (item x ''T0_w'') (\<lambda>v0.
     ebind (numpy_array v0) (\<lambda>T0.
     ebind (item x ''Tw_e'') (\<lambda>v1.
     ebind (numpy_array v1) (\<lambda>Te.
     ebind (item x ''Bw'') (\<lambda>v2.
     ebind (numpy_array v2) (\<lambda>B.
     ebind (get_manipindex x) (\<lambda>manip.
     ebind (get_bodyandlink x) (\<lambda>bodyandlink.
       TSR_init (Some T0) (Some Te) (Some B) (ManipIndex manip) (Some bodyandlink)))))))))"
| "TSR_from_dict _ = Inl (TypeError ''indices must be integers'')"

text \<open>The JSON and YAML libraries are parameters: a writer and a reader each.\<close>

record codecs =
  json_dumps :: "pyval \<Rightarrow> string"
  json_loads :: "string \<Rightarrow> error + pyval"
  yaml_dump :: "pyval \<Rightarrow> string"
  yaml_safe_load :: "string \<Rightarrow> error + pyval"

definition TSR_to_json :: "codecs \<Rightarrow> tsr \<Rightarrow> string" where
  "TSR_to_json cd self = json_dumps cd (VDict (TSR_to_dict self))"

definition TSR_from_json :: "codecs \<Rightarrow> string \<Rightarrow> error + tsr" where
  "TSR_from_json cd x = ebind (json_loads cd x) (\<lambda>x_dict. TSR_from_dict x_dict)"

definition TSR_to_yaml :: "codecs \<Rightarrow> tsr \<Rightarrow> string" where
  "TSR_to_yaml cd self = yaml_dump cd (VDict (TSR_to_dict self))"

definition TSR_from_yaml :: "codecs \<Rightarrow> string \<Rightarrow> error + tsr" where
  "TSR_from_yaml cd x = ebind (yaml_safe_load cd x) (\<lambda>x_dict. TSR_from_dict x_dict)"

subsection \<open>TSRChain\<close>

record tsrchain =
  sample_start :: bool
  sample_goal :: bool
  constrain :: bool
  mimicbodyname :: string
  mimicbodyjoints :: "int list"
  TSRs :: "tsr list"

definition TSRChain_append :: "tsrchain \<Rightarrow> tsr \<Rightarrow> tsrchain" where
  "TSRChain_append self t = self\<lparr>TSRs := TSRs self @ [t]\<rparr>"

definition TSRChain_init ::
  "bool \<Rightarrow> bool \<Rightarrow> bool \<Rightarrow> tsr option \<Rightarrow> tsr list option \<Rightarrow> string \<Rightarrow> int list option
     \<Rightarrow> tsrchain" where
  "TSRChain_init start goal constr TSR_arg TSRs_arg name joints =
     (let c0 = \<lparr>sample_start = start, sample_goal = goal, constrain = constr,
                mimicbodyname = name,
                mimicbodyjoints = (case joints of None \<Rightarrow> [] | Some js \<Rightarrow> js),
                TSRs = []\<rparr>;
          c1 = (case TSR_arg of None \<Rightarrow> c0 | Some t \<Rightarrow> TSRChain_append c0 t)
      in case TSRs_arg of None \<Rightarrow> c1 | Some ts \<Rightarrow> foldl TSRChain_append c1 ts)"

definition TSRChain_to_dict :: "tsrchain \<Rightarrow> (string \<times> pyval) list" where
  "TSRChain_to_dict self =
     [(''sample_goal'', VBool (sample_goal self)),
      (''sample_start'', VBool (sample_start self)),
      (''constrain'', VBool (constrain self)),
      (''mimicbodyname'', VStr (mimicbodyname self)),
      (''mimicbodyjoints'', VList (map VInt (mimicbodyjoints self))),
      (''tsrs'', VList (map (\<lambda>t. VDict (TSR_to_dict t)) (TSRs self)))]"

text \<open>\<^verbatim>\<open>[TSR.from_dict(tsr) for tsr in x['tsrs']]\<close>\<close>

fun from_dicts :: "pyval list \<Rightarrow> error + tsr list" where
  "from_dicts [] = Inr []"
| "from_dicts (v # vs) =
     ebind (TSR_from_dict v) (\<lambda>t.
     ebind (from_dicts vs) (\<lambda>ts. Inr (t # ts)))"

text \<open>The chain stores the values of the dict as they are. The record has a type for
  each field; a flag that is not a bool, a name that is not a string, joints that are
  not a list of ints, TSRs that are not a list are not modelled.\<close>

fun as_bool :: "pyval \<Rightarrow> error + bool" where
  "as_bool (VBool b) = Inr b"
| "as_bool _ = Inl (Unmodelled ''flag that is not a bool'')"

fun as_str :: "pyval \<Rightarrow> error + string" where
  "as_str (VStr s) = Inr s"
| "as_str _ = Inl (Unmodelled ''name that is not a string'')"

fun as_int :: "pyval \<Rightarrow> int option" where
  "as_int (VInt k) = Some k"
| "as_int _ = None"

fun as_ints :: "pyval \<Rightarrow> error + int list" where
  "as_ints (VList vs) =
     (if list_all (\<lambda>v. as_int v \<noteq> None) vs then Inr (map (\<lambda>v. the (as_int v)) vs)
      else Inl (Unmodelled ''joints that are not ints''))"
| "as_ints _ = Inl (Unmodelled ''joints that are not a list'')"

fun as_list :: "pyval \<Rightarrow> error + pyval list" where
  "as_list (VList vs) = Inr vs"
| "as_list _ = Inl (Unmodelled ''tsrs that are not a list'')"

fun TSRChain_from_dict :: "pyval \<Rightarrow> error + tsrchain" where
  "TSRChain_from_dict (VDict x) =
     ebind (item x ''sample_start'') (\<lambda>v0.
     ebind (as_bool v0) (\<lambda>start.
     ebind (item x ''sample_goal'') (\<lambda>v1.
     ebind (as_bool v1) (\<lambda>goal.
     ebind (item x ''constrain'') (\<lambda>v2.
     ebind (as_bool v2) (\<lambda>constr.
     ebind (item x ''tsrs'') (\<lambda>v3.
     ebind (as_list v3) (\<lambda>dicts.
     ebind (from_dicts dicts) (\<lambda>tsrs.
     ebind (item x ''mimicbodyname'') (\<lambda>v4.
     ebind (as_str v4) (\<lambda>name.
     ebind (item x ''mimicbodyjoints'') (\<lambda>v5.
     ebind (as_ints v5) (\<lambda>joints.
       Inr (TSRChain_init start goal constr None (Some tsrs) name (Some joints)))))))))))))))"
| "TSRChain_from_dict _ = Inl (TypeError ''indices must be integers'')"

text \<open>\<open>from_json\<close> and \<open>from_yaml\<close> of the chain end in \<^verbatim>\<open>TSR.from_dict(x_dict)\<close>.\<close>

definition TSRChain_to_json :: "codecs \<Rightarrow> tsrchain \<Rightarrow> string" where
  "TSRChain_to_json cd self = json_dumps cd (VDict (TSRChain_to_dict self))"

definition TSRChain_from_json :: "codecs \<Rightarrow> string \<Rightarrow> error + tsr" where
  "TSRChain_from_json cd x = ebind (json_loads cd x) (\<lambda>x_dict. TSR_from_dict x_dict)"

definition TSRChain_to_yaml :: "codecs \<Rightarrow> tsrchain \<Rightarrow> string" where
  "TSRChain_to_yaml cd self = yaml_dump cd (VDict (TSRChain_to_dict self))"

definition TSRChain_from_yaml :: "codecs \<Rightarrow> string \<Rightarrow> error + tsr" where
  "TSRChain_from_yaml cd x = ebind (yaml_safe_load cd x) (\<lambda>x_dict. TSR_from_dict x_dict)"

text \<open>The loop of \<open>is_valid\<close>, from index \<open>idx\<close> on, over the TSRs still to check.\<close>

fun checks_from :: "tsr list \<Rightarrow> nat \<Rightarrow> pose6 list \<Rightarrow> bool \<Rightarrow> error + bool list list" where
  "checks_from [] idx xyzrpy ignoreNAN = Inr []"
| "checks_from (t # ts) idx xyzrpy ignoreNAN =
     ebind (at1 xyzrpy idx) (\<lambda>x.
     ebind (TSR_is_valid t x ignoreNAN) (\<lambda>c.
     ebind (checks_from ts (Suc idx) xyzrpy ignoreNAN) (\<lambda>cs. Inr (c # cs))))"

text \<open>\<^verbatim>\<open>raise('Sample must be of equal length to TSR chain!')\<close> raises a string, which
  Python answers with a TypeError.\<close>

definition TSRChain_is_valid :: "tsrchain \<Rightarrow> pose6 list \<Rightarrow> bool \<Rightarrow> error + bool list list" where
  "TSRChain_is_valid self xyzrpy ignoreNAN =
     (if length xyzrpy \<noteq> length (TSRs self)
      then Inl (TypeError ''exceptions must derive from BaseException'')
      else checks_from (TSRs self) 0 xyzrpy ignoreNAN)"

text \<open>
  The loop of \<open>to_transform\<close>. It assigns to the field \<open>T0_w\<close> of the TSR at \<open>idx\<close>
  before it calls that TSR's \<open>to_transform\<close>, so the chain is part of the result, also
  when a call raises. \<open>seen\<close> holds the TSRs before \<open>idx\<close>, as the loop has left them.
  The TSRs of a chain are taken to be distinct objects.
\<close>

fun transform_from ::
  "externals \<Rightarrow> ndarray \<Rightarrow> tsr list \<Rightarrow> tsr list \<Rightarrow> nat \<Rightarrow> pose6 list
     \<Rightarrow> (error + ndarray) \<times> tsr list" where
  "transform_from ext T seen [] idx xyzrpy = (Inr T, seen)"
| "transform_from ext T seen (t # ts) idx xyzrpy =
     (let tsr_current = t\<lparr>T0_w := T\<rparr>
      in case ebind (at1 xyzrpy idx) (\<lambda>x. TSR_to_transform ext tsr_current x) of
           Inl e \<Rightarrow> (Inl e, seen @ tsr_current # ts)
         | Inr T' \<Rightarrow> transform_from ext T' (seen @ [tsr_current]) ts (Suc idx) xyzrpy)"

definition TSRChain_to_transform ::
  "externals \<Rightarrow> tsrchain \<Rightarrow> pose6 list \<Rightarrow> (error + ndarray) \<times> tsrchain" where
  "TSRChain_to_transform ext self xyzrpy =
     (case TSRChain_is_valid self xyzrpy False of
        Inl e \<Rightarrow> (Inl e, self)
      | Inr check \<Rightarrow>
          if \<not> list_all (\<lambda>c. list_all (\<lambda>b. b) c) check
          then (Inl (ValueError ''Invalid xyzrpy''), self)
          else
            (case at1 (TSRs self) 0 of
               Inl e \<Rightarrow> (Inl e, self)
             | Inr first \<Rightarrow>
                 (case transform_from ext (T0_w first) [] (TSRs self) 0 xyzrpy of
                    (r, ts) \<Rightarrow> (r, self\<lparr>TSRs := ts\<rparr>))))"

text \<open>The loop of the chain's \<open>sample_xyzrpy\<close>.\<close>

fun samples_from ::
  "(nat \<Rightarrow> real) \<Rightarrow> nat \<Rightarrow> tsr list \<Rightarrow> nat \<Rightarrow> pose6 list \<Rightarrow> (error + pose6 list) \<times> nat" where
  "samples_from rng k [] idx xyzrpy = (Inr [], k)"
| "samples_from rng k (t # ts) idx xyzrpy =
     (case at1 xyzrpy idx of
        Inl e \<Rightarrow> (Inl e, k)
      | Inr x \<Rightarrow>
          (case TSR_sample_xyzrpy rng k t (Some x) of
             (Inl e, k') \<Rightarrow> (Inl e, k')
           | (Inr s, k') \<Rightarrow>
               (case samples_from rng k' ts (Suc idx) xyzrpy of
                  (Inl e, k'') \<Rightarrow> (Inl e, k'')
                | (Inr ss, k'') \<Rightarrow> (Inr (s # ss), k''))))"

definition TSRChain_sample_xyzrpy ::
  "(nat \<Rightarrow> real) \<Rightarrow> nat \<Rightarrow> tsrchain \<Rightarrow> pose6 list option \<Rightarrow> (error + pose6 list) \<times> nat" where
  "TSRChain_sample_xyzrpy rng k self xyzrpy_arg =
     (let xyzrpy = (case xyzrpy_arg of
                      None \<Rightarrow> replicate (length (TSRs self)) NANBW
                    | Some v \<Rightarrow> v)
      in samples_from rng k (TSRs self) 0 xyzrpy)"

definition TSRChain_sample ::
  "externals \<Rightarrow> (nat \<Rightarrow> real) \<Rightarrow> nat \<Rightarrow> tsrchain \<Rightarrow> pose6 list option
     \<Rightarrow> ((error + ndarray) \<times> tsrchain) \<times> nat" where
  "TSRChain_sample ext rng k self xyzrpy_arg =
     (case TSRChain_sample_xyzrpy rng k self xyzrpy_arg of
        (Inl e, k') \<Rightarrow> ((Inl e, self), k')
      | (Inr xyzrpy, k') \<Rightarrow> (TSRChain_to_transform ext self xyzrpy, k'))"

text \<open>\<^verbatim>\<open>a.reshape(n, 6)\<close>\<close>

fun rows6 :: "nat \<Rightarrow> pyfloat list \<Rightarrow> pose6 list" where
  "rows6 0 xs = []"
| "rows6 (Suc n) xs = take 6 xs # rows6 n (drop 6 xs)"

definition reshape6 :: "nat \<Rightarrow> pyfloat list \<Rightarrow> error + pose6 list" where
  "reshape6 n xs =
     (if length xs = n * 6 then Inr (rows6 n xs)
      else Inl (ValueError ''cannot reshape array''))"

text \<open>The loop of the chain's \<open>distance\<close> that collects the initial point and the
  bounds.\<close>

fun init_bounds :: "tsr list \<Rightarrow> error + (pyfloat list \<times> (pyfloat \<times> pyfloat) list)" where
  "init_bounds [] = Inr ([], [])"
| "init_bounds (t # ts) =
     ebind (midpoints (Bw t)) (\<lambda>m.
     ebind (bounds_from (Bw t) 0 6) (\<lambda>b.
     ebind (init_bounds ts) (\<lambda>(ms, bs). Inr (m @ ms, b @ bs))))"

text \<open>
  The objective of the chain's \<open>distance\<close>. Each call of the chain's \<open>to_transform\<close>
  assigns \<open>T0_w\<close> of every TSR before it reads it, and assigns to the first TSR the
  value it already has, so the assignments of one call do not reach the next: the
  objective is a function of the point alone.
\<close>

definition chain_objective ::
  "externals \<Rightarrow> tsrchain \<Rightarrow> ndarray \<Rightarrow> pyfloat list \<Rightarrow> error + pyfloat" where
  "chain_objective ext self transform xyzrpy =
     ebind (reshape6 (length (TSRs self)) xyzrpy) (\<lambda>bw_stack.
     ebind (fst (TSRChain_to_transform ext self bw_stack)) (\<lambda>bwtrans.
       GeodesicDistance ext bwtrans transform))"

definition TSRChain_distance ::
  "externals \<Rightarrow> tsrchain \<Rightarrow> ndarray \<Rightarrow> error + (pyfloat \<times> pose6 list)" where
  "TSRChain_distance ext self transform =
     ebind (init_bounds (TSRs self)) (\<lambda>(bwinit, bwbounds).
     ebind (fmin_l_bfgs_b ext (chain_objective ext self transform) bwinit bwbounds)
       (\<lambda>(bwopt, dist).
     ebind (reshape6 (length (TSRs self)) bwopt) (\<lambda>stack. Inr (dist, stack))))"

fun fabs :: "pyfloat \<Rightarrow> pyfloat" where
  "fabs (Fl a) = Fl \<bar>a\<bar>"
| "fabs NaN = NaN"

definition TSRChain_contains :: "externals \<Rightarrow> tsrchain \<Rightarrow> ndarray \<Rightarrow> error + bool" where
  "TSRChain_contains ext self transform =
     ebind (TSRChain_distance ext self transform) (\<lambda>(dist, _). Inr (flt (fabs dist) EPSILON))"

definition TSRChain_to_xyzrpy :: "externals \<Rightarrow> tsrchain \<Rightarrow> ndarray \<Rightarrow> error + pose6 list" where
  "TSRChain_to_xyzrpy ext self transform =
     ebind (TSRChain_distance ext self transform) (\<lambda>(_, xyzrpy). Inr xyzrpy)"

subsection \<open>Example values\<close>

definition zeros6 :: pose6 where
  "zeros6 = replicate 6 (Fl 0)"

text \<open>\<^verbatim>\<open>TSR()\<close>\<close>

definition default_tsr :: tsr where
  "default_tsr = \<lparr>T0_w = eye4, Tw_e = eye4, Bw = zeros62,
     manipindex = PInt (- 1), bodyandlink = PStr ''NULL''\<rparr>"

text \<open>\<^verbatim>\<open>TSRChain(TSRs=[TSR(), TSR()])\<close>\<close>

definition two_chain :: tsrchain where
  "two_chain = \<lparr>sample_start = False, sample_goal = False, constrain = False,
     mimicbodyname = ''NULL'', mimicbodyjoints = [], TSRs = [default_tsr, default_tsr]\<rparr>"

text \<open>A TSR whose roll may be half a radian to either side of \<open>pi\<close>.\<close>

definition straddling_tsr :: tsr where
  "straddling_tsr = \<lparr>T0_w = eye4, Tw_e = eye4,
     Bw = [[Fl 0, Fl 0], [Fl 0, Fl 0], [Fl 0, Fl 0],
           [Fl (pi - 1/2), Fl (pi + 1/2)], [Fl 0, Fl 0], [Fl 0, Fl 0]],
     manipindex = PInt (- 1), bodyandlink = PStr ''NULL''\<rparr>"

text \<open>Bounds that leave x free between -5 and 5 and fix every rotation at 0.\<close>

definition wide_x_Bw :: ndarray where
  "wide_x_Bw = [[Fl (- 5), Fl 5], [Fl 0, Fl 0], [Fl 0, Fl 0],
                [Fl 0, Fl 0], [Fl 0, Fl 0], [Fl 0, Fl 0]]"

text \<open>\<^verbatim>\<open>TSRChain()\<close>\<close>

definition empty_chain :: tsrchain where
  "empty_chain = \<lparr>sample_start = False, sample_goal = False, constrain = False,
     mimicbodyname = ''NULL'', mimicbodyjoints = [], TSRs = []\<rparr>"

text \<open>Stand-ins for the imported functions, to run the model on the identity transform:
  the pose of the identity, its angles, its inverse; an optimizer that fails when it is
  called.\<close>

definition stub_externals :: externals where
  "stub_externals = \<lparr>
     pose_from_xyzypr = (\<lambda>v. Inr (take 3 v @ [Fl 1, Fl 0, Fl 0, Fl 0])),
     pose_to_H = (\<lambda>p. Inr eye4),
     pose_from_H = (\<lambda>H. Inr [Fl 0, Fl 0, Fl 0, Fl 1, Fl 0, Fl 0, Fl 0]),
     quat_to_ypr = (\<lambda>q. Inr [Fl 0, Fl 0, Fl 0]),
     linalg_inv = (\<lambda>A. Inr A),
     GeodesicDistance = (\<lambda>A B. Inr (Fl 0)),
     fmin_l_bfgs_b = (\<lambda>f x0 bounds. Inl (External ''fmin_l_bfgs_b''))\<rparr>"

text \<open>Stand-ins for the JSON and YAML libraries: readers that return the dict of
  \<open>two_chain\<close>, as reading what the writers made of it does.\<close>

definition stub_codecs :: codecs where
  "stub_codecs = \<lparr>
     json_dumps = (\<lambda>v. ''json''),
     json_loads = (\<lambda>s. Inr (VDict (TSRChain_to_dict two_chain))),
     yaml_dump = (\<lambda>v. ''yaml''),
     yaml_safe_load = (\<lambda>s. Inr (VDict (TSRChain_to_dict two_chain)))\<rparr>"

text \<open>The rows of an array have one length.\<close>

definition rect :: "ndarray \<Rightarrow> bool" where
  "rect A = list_all (\<lambda>r. length r = ncols A) A"

text \<open>What \<open>from_dict\<close> stores for the index and the link of a TSR.\<close>

definition as_arrays :: "tsr \<Rightarrow> tsr" where
  "as_arrays t = t\<lparr>manipindex := NdInt (py_int (manipindex t)),
                   bodyandlink := NdStr (py_str (bodyandlink t))\<rparr>"

text \<open>A TSR whose three arrays have rows of one length and whose bounds pass the test
  of the constructor.\<close>

definition accepted :: "tsr \<Rightarrow> bool" where
  "accepted t =
     (rect (T0_w t) \<and> rect (Tw_e t) \<and> rect (Bw t) \<and> range_exceeded (Bw t) = Inr False)"

text \<open>A TSR with a pose and bounds of its own.\<close>

definition shelf_tsr :: tsr where
  "shelf_tsr = \<lparr>
     T0_w = [[Fl 0, Fl (- 1), Fl 0, Fl (3/2)],
             [Fl 1, Fl 0, Fl 0, Fl (1/4)],
             [Fl 0, Fl 0, Fl 1, Fl (7/10)],
             [Fl 0, Fl 0, Fl 0, Fl 1]],
     Tw_e = [[Fl 1, Fl 0, Fl 0, Fl 0],
             [Fl 0, Fl 1, Fl 0, Fl 0],
             [Fl 0, Fl 0, Fl 1, Fl (1/10)],
             [Fl 0, Fl 0, Fl 0, Fl 1]],
     Bw = [[Fl (- 1/100), Fl (1/100)], [Fl (- 1/100), Fl (1/100)], [Fl 0, Fl (1/5)],
           [Fl 0, Fl 0], [Fl 0, Fl 0], [Fl (- 3), Fl 3]],
     manipindex = PInt 1, bodyandlink = PStr ''shelf base''\<rparr>"

section \<open>Properties\<close>

subsection \<open>Wrapping of angles\<close>

lemma rmod_small: "0 \<le> x \<Longrightarrow> x < m \<Longrightarrow> rmod x m = x"
proof -
  assume a: "0 \<le> x" "x < m"
  then have "\<lfloor>x / m\<rfloor> = 0"
    by (intro floor_unique) (auto simp: divide_simps)
  then show ?thesis by (simp add: rmod_def)
qed

lemma rmod_next: "m \<le> x \<Longrightarrow> x < 2 * m \<Longrightarrow> 0 < m \<Longrightarrow> rmod x m = x - m"
proof -
  assume a: "m \<le> x" "x < 2 * m" "0 < m"
  then have "\<lfloor>x / m\<rfloor> = 1"
    by (intro floor_unique) (auto simp: divide_simps)
  then show ?thesis by (simp add: rmod_def)
qed

lemma pi_ge_three: "3 \<le> pi"
proof -
  have "sin (pi / 6) \<le> pi / 6"
    by (rule sin_x_le_x) simp
  then show ?thesis by (simp add: sin_30)
qed

lemma pi_bounds: "3 \<le> pi" "pi < 4"
  using pi_ge_three pi_less_4 by auto

lemma wrap_id: "- pi \<le> x \<Longrightarrow> x < pi \<Longrightarrow> wrap (Fl x) = Fl x"
  by (simp add: wrap_def PI_def rmod_small)

lemma wrap_shift: "pi \<le> x \<Longrightarrow> x < 3 * pi \<Longrightarrow> wrap (Fl x) = Fl (x - 2 * pi)"
  by (simp add: wrap_def PI_def rmod_next)

lemma wrap_zero: "wrap (Fl 0) = Fl 0"
  using pi_bounds by (simp add: wrap_id)

lemma wrap_lo: "wrap (Fl (pi - 1/2)) = Fl (pi - 1/2)"
  using pi_bounds by (simp add: wrap_id)

lemma wrap_hi: "wrap (Fl (pi + 1/2)) = Fl (1/2 - pi)"
  using pi_bounds wrap_shift [of "pi + 1/2"] by simp

lemma wrap_mid: "wrap (Fl (pi + 1/4)) = Fl (1/4 - pi)"
  using pi_bounds wrap_shift [of "pi + 1/4"] by simp

subsection \<open>is_valid on a range across \<open>pi\<close>\<close>

text \<open>Bounds that stay within \<open>[-pi, pi)\<close> are not changed by the wrapping, and an
  angle between them passes.\<close>

lemma inside_plain_range:
  "- pi \<le> lo \<Longrightarrow> lo \<le> x \<Longrightarrow> x \<le> hi \<Longrightarrow> hi < pi \<Longrightarrow>
     bound_check [[wrap (Fl lo), wrap (Fl hi)]] 0 (wrap (Fl x)) = Inr True"
  by (simp add: wrap_id bound_check_def at2_def EPSILON_def)

lemma straddling_init:
  "TSR_init None None (Some (Bw straddling_tsr)) ManipNone None = Inr straddling_tsr"
  using pi_bounds
  by (simp add: TSR_init_def straddling_tsr_def range_exceeded_def column_def range_limit_def
      PI_def EPSILON_def)

lemma straddling_invalid:
  "TSR_is_valid straddling_tsr [Fl 0, Fl 0, Fl 0, Fl (pi + 1/4), Fl 0, Fl 0] False
     = Inr [True, True, True, False, True, True]"
  using pi_bounds
  by (simp add: TSR_is_valid_def straddling_tsr_def bound_check_def at2_def
      wrap_zero wrap_lo wrap_hi wrap_mid EPSILON_def)

text \<open>
  C1. The claim: when the bounds of a rotation reach across \<open>pi\<close>, \<open>is_valid\<close> accepts
  every angle between them. The code wraps the two bounds and the angle one by one and
  then compares them as numbers. The roll bounds \<open>[pi - 1/2, pi + 1/2]\<close>, which the
  constructor accepts, become \<open>[pi - 1/2, 1/2 - pi]\<close>, the lower above the upper, and
  the roll \<open>pi + 1/4\<close>, which lies between the bounds, becomes \<open>1/4 - pi\<close>: the check of
  the roll is false.
\<close>

theorem C1_range_across_pi_rejected:
  "TSR_init None None (Some (Bw straddling_tsr)) ManipNone None = Inr straddling_tsr
   \<and> TSR_is_valid straddling_tsr [Fl 0, Fl 0, Fl 0, Fl (pi + 1/4), Fl 0, Fl 0] False
       = Inr [True, True, True, False, True, True]"
  using straddling_init straddling_invalid by simp

subsection \<open>The constructor\<close>

text \<open>
  C3. The claim: the constructor raises exactly when a rotational range is wider than
  \<open>2 pi + EPSILON\<close>, whatever the translational rows hold. The code compares every row
  of \<open>Bw\<close> with that limit: bounds that let x range over 10 metres and fix every
  rotation are refused.
\<close>

theorem C3_translation_range_refused:
  "TSR_init None None (Some wide_x_Bw) ManipNone None
     = Inl (ValueError ''Bw range must be within 2*PI'')"
  using pi_bounds
  by (simp add: TSR_init_def wide_x_Bw_def range_exceeded_def column_def range_limit_def
      PI_def EPSILON_def)

subsection \<open>to_transform\<close>

lemma bound_checks_length: "bound_checks B i xs = Inr cs \<Longrightarrow> length cs = length xs"
proof (induction xs arbitrary: i cs)
  case Nil
  then show ?case by simp
next
  case (Cons x xs)
  then show ?case by (auto split: sum.splits)
qed

lemma TSR_is_valid_length:
  assumes "TSR_is_valid t x False = Inr check"
  shows "length check = min 6 (length x)"
proof -
  from assms obtain c1 c2 where
    c1: "bound_checks (take 3 (Bw t)) 0 (take 3 x) = Inr c1" and
    c2: "bound_checks (map (map wrap) (take 3 (drop 3 (Bw t)))) 0
           (map wrap (take 3 (drop 3 x))) = Inr c2" and
    ch: "check = c1 @ c2"
    by (auto simp: TSR_is_valid_def Let_def split: sum.splits if_splits)
  from bound_checks_length [OF c1] bound_checks_length [OF c2] ch
  show ?thesis by auto
qed

lemma array_truth_six: "length check = 6 \<Longrightarrow> array_truth check = Inl (ValueError ambiguous)"
  by (cases check rule: array_truth.cases) auto

text \<open>\<open>is_valid\<close> returns an array of six elements for a vector of six, and the guard of
  \<open>to_transform\<close> asks for its truth value: no call of \<open>to_transform\<close> returns.\<close>

lemma TSR_to_transform_raises: "TSR_to_transform ext t x \<noteq> Inr T"
proof (cases "length x = 6")
  case False
  then show ?thesis by (simp add: TSR_to_transform_def)
next
  case True
  show ?thesis
  proof (cases "TSR_is_valid t x False")
    case (Inl e)
    with True show ?thesis by (simp add: TSR_to_transform_def)
  next
    case (Inr check)
    with True have "length check = 6" using TSR_is_valid_length by fastforce
    with True Inr show ?thesis by (simp add: TSR_to_transform_def array_truth_six)
  qed
qed

lemma is_valid_default:
  "TSR_is_valid default_tsr zeros6 False = Inr [True, True, True, True, True, True]"
  by (simp add: TSR_is_valid_def default_tsr_def zeros6_def zeros62_def bound_check_def at2_def
      wrap_zero EPSILON_def numeral_eq_Suc)

lemma to_transform_default:
  "TSR_to_transform ext default_tsr zeros6 = Inl (ValueError ambiguous)"
  by (simp add: TSR_to_transform_def is_valid_default) (simp add: zeros6_def numeral_eq_Suc)

text \<open>
  C4. The claim: \<open>to_xyzrpy (to_transform b0)\<close> gives \<open>b0\<close> back, for every \<open>b0\<close> in the
  box. For the default TSR, whose box is the single point 0, \<open>is_valid\<close> accepts
  \<open>b0 = 0\<close> in all six places, and \<open>to_transform\<close> raises ValueError at its guard: there
  is no transform to pass to \<open>to_xyzrpy\<close>.
\<close>

theorem C4_to_transform_raises:
  "TSR_is_valid default_tsr zeros6 False = Inr [True, True, True, True, True, True]
   \<and> TSR_to_transform ext default_tsr zeros6 = Inl (ValueError ambiguous)"
  using is_valid_default to_transform_default by simp

text \<open>
  C2. The claim: the chain's \<open>to_transform\<close> returns the transform of the second TSR
  taken at the transform of the first, and leaves the first transform in the second
  TSR's \<open>T0_w\<close>. For the chain of two default TSRs and two valid vectors the loop
  stops in its first round, where \<open>to_transform\<close> of the first TSR raises: the call
  raises ValueError and the chain is as it was.
\<close>

theorem C2_chain_to_transform_raises:
  "TSRChain_to_transform ext two_chain [zeros6, zeros6]
     = (Inl (ValueError ambiguous), two_chain)"
  by (simp add: TSRChain_to_transform_def TSRChain_is_valid_def two_chain_def at1_def
      is_valid_default to_transform_default)

subsection \<open>Sampling\<close>

text \<open>What the loop of \<open>sample_xyzrpy\<close> returns: a vector of the length of its
  input, with the input's value wherever that is a number, and a value
  \<open>lo + (hi - lo) * r\<close> for a draw \<open>r\<close> of the generator wherever it is NaN; a draw from
  \<open>[0, 1)\<close> gives a value between \<open>lo\<close> and \<open>hi\<close>. A vector that fails the check
  with NaN ignored is refused.\<close>

lemma sample_from_Cons_nan:
  "isnan x \<Longrightarrow> sample_from B rng k i (x # xs) = (Inr vs, k') \<longleftrightarrow>
     (\<exists>lo hi rest. at2 B i 0 = Inr lo \<and> at2 B i 1 = Inr hi
        \<and> sample_from B rng (Suc k) (Suc i) xs = (Inr rest, k')
        \<and> vs = fadd lo (fmul (fsub hi lo) (Fl (rng k))) # rest)"
proof -
  assume n: "isnan x"
  show ?thesis
  proof (cases "at2 B i 0")
    case (Inl e)
    with n show ?thesis by simp
  next
    case lo: (Inr lo)
    show ?thesis
    proof (cases "at2 B i 1")
      case (Inl e)
      with n lo show ?thesis by simp
    next
      case hi: (Inr hi)
      obtain r k'' where r: "sample_from B rng (Suc k) (Suc i) xs = (r, k'')"
        by (cases "sample_from B rng (Suc k) (Suc i) xs") blast
      show ?thesis
      proof (cases r)
        case (Inl e)
        with n lo hi r show ?thesis by simp
      next
        case (Inr rest)
        with n lo hi r show ?thesis by auto
      qed
    qed
  qed
qed

lemma sample_from_Cons_value:
  "\<not> isnan x \<Longrightarrow> sample_from B rng k i (x # xs) = (Inr vs, k') \<longleftrightarrow>
     (\<exists>rest. sample_from B rng k (Suc i) xs = (Inr rest, k') \<and> vs = x # rest)"
proof -
  assume n: "\<not> isnan x"
  obtain r k'' where r: "sample_from B rng k (Suc i) xs = (r, k'')"
    by (cases "sample_from B rng k (Suc i) xs") blast
  show ?thesis
  proof (cases r)
    case (Inl e)
    with n r show ?thesis by simp
  next
    case (Inr rest)
    with n r show ?thesis by auto
  qed
qed


lemma sample_from_values:
  "sample_from B rng k i xs = (Inr vs, k') \<Longrightarrow>
     length vs = length xs \<and> (\<forall>j<length xs. \<not> isnan (xs ! j) \<longrightarrow> vs ! j = xs ! j)"
proof (induction xs arbitrary: k i vs)
  case Nil
  then show ?case by simp
next
  case (Cons x xs)
  show ?case
  proof (cases "isnan x")
    case True
    with Cons.prems obtain v rest where
      r: "sample_from B rng (Suc k) (Suc i) xs = (Inr rest, k')" and vs: "vs = v # rest"
      unfolding sample_from_Cons_nan [OF True] by blast
    from Cons.IH [OF r] vs True show ?thesis
      by (auto simp: nth_Cons split: nat.splits)
  next
    case False
    with Cons.prems obtain rest where
      r: "sample_from B rng k (Suc i) xs = (Inr rest, k')" and vs: "vs = x # rest"
      unfolding sample_from_Cons_value [OF False] by blast
    from Cons.IH [OF r] vs show ?thesis
      by (auto simp: nth_Cons split: nat.splits)
  qed
qed

lemma sample_from_draws:
  "sample_from B rng k i xs = (Inr vs, k') \<Longrightarrow> j < length xs \<Longrightarrow> isnan (xs ! j) \<Longrightarrow>
     \<exists>lo hi n. at2 B (i + j) 0 = Inr lo \<and> at2 B (i + j) 1 = Inr hi
        \<and> vs ! j = fadd lo (fmul (fsub hi lo) (Fl (rng n)))"
proof (induction xs arbitrary: k i vs j)
  case Nil
  then show ?case by simp
next
  case (Cons x xs)
  show ?case
  proof (cases j)
    case 0
    with Cons.prems have n: "isnan x" by simp
    from Cons.prems(1) obtain lo hi rest where
      "at2 B i 0 = Inr lo" "at2 B i 1 = Inr hi"
      "vs = fadd lo (fmul (fsub hi lo) (Fl (rng k))) # rest"
      unfolding sample_from_Cons_nan [OF n] by blast
    with 0 show ?thesis by auto
  next
    case (Suc j')
    with Cons.prems have j': "j' < length xs" "isnan (xs ! j')" by auto
    obtain v rest k0 where
      r: "sample_from B rng k0 (Suc i) xs = (Inr rest, k')" and vs: "vs = v # rest"
    proof (cases "isnan x")
      case True
      with Cons.prems(1) that show ?thesis
        unfolding sample_from_Cons_nan [OF True] by blast
    next
      case False
      with Cons.prems(1) that show ?thesis
        unfolding sample_from_Cons_value [OF False] by blast
    qed
    from Cons.IH [OF r j'] vs Suc show ?thesis by simp
  qed
qed

lemma draw_in_range:
  "0 \<le> r \<Longrightarrow> r < 1 \<Longrightarrow> a \<le> b \<Longrightarrow>
     \<exists>v. fadd (Fl a) (fmul (fsub (Fl b) (Fl a)) (Fl r)) = Fl v \<and> a \<le> v \<and> v \<le> b"
proof -
  assume r: "0 \<le> r" "r < 1" and ab: "a \<le> b"
  have "0 \<le> (b - a) * r" using r ab by simp
  moreover have "(b - a) * r \<le> (b - a) * 1"
    using r ab by (intro mult_left_mono) auto
  ultimately show ?thesis by auto
qed

lemma sample_out_of_bounds:
  "TSR_is_valid t x True = Inr check \<Longrightarrow> \<not> list_all (\<lambda>b. b) check \<Longrightarrow>
     TSR_sample_xyzrpy rng k t (Some x) = (Inl (ValueError ''xyzrpy must be within bounds''), k)"
  by (simp add: TSR_sample_xyzrpy_def)

lemma straddling_valid_nan:
  "TSR_is_valid straddling_tsr NANBW True = Inr [True, True, True, True, True, True]"
  by (simp add: TSR_is_valid_def straddling_tsr_def bound_check_def at2_def NANBW_def
      wrap_def set_where_def numeral_eq_Suc)

lemma straddling_sample:
  "TSR_sample_xyzrpy (\<lambda>_. 3/4) 0 straddling_tsr None
     = (Inr [Fl 0, Fl 0, Fl 0, Fl (pi + 1/4), Fl 0, Fl 0], 6)"
  by (simp add: TSR_sample_xyzrpy_def straddling_valid_nan)
     (simp add: NANBW_def straddling_tsr_def at2_def numeral_eq_Suc)

text \<open>
  C5. The claim: every vector that \<open>sample_xyzrpy\<close> returns passes \<open>is_valid\<close> in all
  six places. With roll bounds across \<open>pi\<close> and a generator that returns 3/4, the
  sample of the unconstrained vector has the roll \<open>pi + 1/4\<close>, taken from between the
  bounds, and \<open>is_valid\<close> rejects it.
\<close>

theorem C5_sample_not_valid:
  "TSR_sample_xyzrpy (\<lambda>_. 3/4) 0 straddling_tsr None
     = (Inr [Fl 0, Fl 0, Fl 0, Fl (pi + 1/4), Fl 0, Fl 0], 6)
   \<and> TSR_is_valid straddling_tsr [Fl 0, Fl 0, Fl 0, Fl (pi + 1/4), Fl 0, Fl 0] False
       = Inr [True, True, True, False, True, True]"
  using straddling_sample straddling_invalid by simp

subsection \<open>distance\<close>

lemma dot_eye: "dot eye4 eye4 = Inr eye4"
  by (simp add: dot_def eye4_def ncols_def fsum_def upt_rec numeral_eq_Suc)

lemma to_xyzrpy_stub: "TSR_to_xyzrpy stub_externals default_tsr eye4 = Inr zeros6"
  by (simp add: TSR_to_xyzrpy_def stub_externals_def default_tsr_def dot_eye at1_def zeros6_def
     numeral_eq_Suc)

lemma contains_stub:
  "TSR_contains stub_externals default_tsr eye4 = Inr [True, True, True, True, True, True]"
  by (simp add: TSR_contains_def to_xyzrpy_stub is_valid_default)

text \<open>
  C6. When \<open>contains\<close> returns six times true for a transform, \<open>distance\<close> returns the
  distance 0 and the vector that \<open>to_xyzrpy\<close> gives for the transform, whatever the
  optimizer is: it is not called.
\<close>

theorem C6_distance_inside:
  assumes "TSR_contains ext self T = Inr inside" and "list_all (\<lambda>b. b) inside"
  shows "\<exists>xyzrpy. TSR_to_xyzrpy ext self T = Inr xyzrpy
           \<and> TSR_distance (ext\<lparr>fmin_l_bfgs_b := opt\<rparr>) self T = Inr (Fl 0, xyzrpy)"
proof -
  from assms(1) obtain xyzrpy where x: "TSR_to_xyzrpy ext self T = Inr xyzrpy"
    by (cases "TSR_to_xyzrpy ext self T") (auto simp: TSR_contains_def)
  have same: "TSR_to_xyzrpy (ext\<lparr>fmin_l_bfgs_b := opt\<rparr>) self T = TSR_to_xyzrpy ext self T"
    by (simp add: TSR_to_xyzrpy_def)
  then have "TSR_contains (ext\<lparr>fmin_l_bfgs_b := opt\<rparr>) self T = Inr inside"
    using assms(1) by (simp add: TSR_contains_def)
  with assms(2) x same show ?thesis
    by (simp add: TSR_distance_def)
qed

theorem C6_distance_inside_witness:
  "TSR_contains stub_externals default_tsr eye4 = Inr [True, True, True, True, True, True]
   \<and> TSR_distance stub_externals default_tsr eye4 = Inr (Fl 0, zeros6)"
  using C6_distance_inside [of stub_externals default_tsr eye4
      "[True, True, True, True, True, True]" "fmin_l_bfgs_b stub_externals"]
    contains_stub to_xyzrpy_stub
  by simp

subsection \<open>Dictionaries\<close>

lemma numbers_floats: "numbers (VList (map VFloat r)) = Some r"
  by (simp add: list_all_iff map_idI)

lemma numpy_array_tolist: "rect A \<Longrightarrow> numpy_array (tolist A) = Inr A"
proof -
  assume r: "rect A"
  have m: "map (\<lambda>r. the (numbers r)) (map (\<lambda>r. VList (map VFloat r)) A) = A"
    by (simp add: numbers_floats o_def del: numbers.simps)
  have a: "list_all (\<lambda>r. numbers r \<noteq> None) (map (\<lambda>r. VList (map VFloat r)) A)"
    by (simp add: list_all_iff numbers_floats del: numbers.simps)
  from r m a show ?thesis
    by (simp add: tolist_def rect_def del: numbers.simps)
qed

lemma zeros62_in_range: "range_exceeded zeros62 = Inr False"
  using pi_bounds
  by (simp add: range_exceeded_def zeros62_def column_def range_limit_def PI_def EPSILON_def
      numeral_eq_Suc)

text \<open>The bounds of a TSR that the constructor has built have passed its test.\<close>

lemma TSR_init_in_range:
  "TSR_init a b c m l = Inr t \<Longrightarrow> range_exceeded (Bw t) = Inr False"
  by (cases c) (auto simp: TSR_init_def Let_def zeros62_in_range split: sum.splits bool.splits)

text \<open>\<open>from_dict\<close> hands \<^verbatim>\<open>numpy.array(...)\<close> of the index and of the link to the
  constructor, which stores them: the new TSR holds zero-dimensional arrays there.\<close>

lemma from_dict_to_dict:
  assumes "rect (T0_w t)" "rect (Tw_e t)" "rect (Bw t)" "range_exceeded (Bw t) = Inr False"
  shows "TSR_from_dict (VDict (TSR_to_dict t))
     = Inr (t\<lparr>manipindex := NdInt (py_int (manipindex t)),
              bodyandlink := NdStr (py_str (bodyandlink t))\<rparr>)"
  using assms
  by (simp add: TSR_to_dict_def item_def numpy_array_tolist get_manipindex_def
      get_bodyandlink_def TSR_init_def del: numpy_array.simps)

lemma shelf_ok:
  "rect (T0_w shelf_tsr)" "rect (Tw_e shelf_tsr)" "rect (Bw shelf_tsr)"
  "range_exceeded (Bw shelf_tsr) = Inr False"
  using pi_bounds
  by (simp_all add: shelf_tsr_def rect_def ncols_def range_exceeded_def column_def
      range_limit_def PI_def EPSILON_def)

lemma shelf_init:
  "TSR_init (Some (T0_w shelf_tsr)) (Some (Tw_e shelf_tsr)) (Some (Bw shelf_tsr))
     (ManipIndex (PInt 1)) (Some (PStr ''shelf base'')) = Inr shelf_tsr"
  using shelf_ok(4) by (simp add: TSR_init_def) (simp add: shelf_tsr_def)

text \<open>
  C7. For a TSR whose three arrays are arrays (rows of one length) and whose bounds
  pass the constructor's test, as those of every constructed TSR do,
  \<open>from_dict (to_dict t)\<close> returns a TSR with the same \<open>T0_w\<close>, \<open>Tw_e\<close> and \<open>Bw\<close>, with
  the same index as an int and the same link as a string, and with the same dict.
\<close>

theorem C7_from_dict_to_dict:
  assumes "rect (T0_w t)" "rect (Tw_e t)" "rect (Bw t)" "range_exceeded (Bw t) = Inr False"
  shows "\<exists>t'. TSR_from_dict (VDict (TSR_to_dict t)) = Inr t'
           \<and> T0_w t' = T0_w t \<and> Tw_e t' = Tw_e t \<and> Bw t' = Bw t
           \<and> py_int (manipindex t') = py_int (manipindex t)
           \<and> py_str (bodyandlink t') = py_str (bodyandlink t)
           \<and> TSR_to_dict t' = TSR_to_dict t"
  using from_dict_to_dict [OF assms] by (simp add: TSR_to_dict_def)

theorem C7_from_dict_to_dict_witness:
  "\<exists>t'. TSR_from_dict (VDict (TSR_to_dict shelf_tsr)) = Inr t'
           \<and> T0_w t' = T0_w shelf_tsr \<and> Tw_e t' = Tw_e shelf_tsr \<and> Bw t' = Bw shelf_tsr
           \<and> py_int (manipindex t') = 1
           \<and> py_str (bodyandlink t') = ''shelf base''
           \<and> TSR_to_dict t' = TSR_to_dict shelf_tsr"
  using C7_from_dict_to_dict [OF shelf_ok] by (simp add: shelf_tsr_def)

text \<open>The chain's own \<open>from_dict\<close> rebuilds a chain from its dict: the flags, the name,
  the joints, and every TSR as \<open>TSR.from_dict\<close> rebuilds it.\<close>

lemma from_dict_accepted:
  "accepted t \<Longrightarrow> TSR_from_dict (VDict (TSR_to_dict t)) = Inr (as_arrays t)"
  using from_dict_to_dict [of t] by (simp add: accepted_def as_arrays_def)

lemma from_dicts_to_dicts:
  "list_all accepted ts \<Longrightarrow>
     from_dicts (map (\<lambda>t. VDict (TSR_to_dict t)) ts) = Inr (map as_arrays ts)"
  by (induction ts) (simp_all add: from_dict_accepted del: TSR_from_dict.simps)

lemma as_ints_ints: "as_ints (VList (map VInt js)) = Inr js"
  by (simp add: list_all_iff map_idI)

lemma foldl_TSRChain_append: "foldl TSRChain_append c ts = c\<lparr>TSRs := TSRs c @ ts\<rparr>"
  by (induction ts arbitrary: c) (simp_all add: TSRChain_append_def)

lemma chain_from_dict_to_dict:
  "list_all accepted (TSRs c) \<Longrightarrow>
     TSRChain_from_dict (VDict (TSRChain_to_dict c)) = Inr (c\<lparr>TSRs := map as_arrays (TSRs c)\<rparr>)"
  by (simp add: TSRChain_to_dict_def item_def from_dicts_to_dicts as_ints_ints TSRChain_init_def
      foldl_TSRChain_append del: as_ints.simps)

lemma from_dict_chain: "TSR_from_dict (VDict (TSRChain_to_dict c)) = Inl (KeyError ''T0_w'')"
  by (simp add: TSRChain_to_dict_def item_def)

text \<open>
  C8. The claim: \<open>from_json (to_json c)\<close> and \<open>from_yaml (to_yaml c)\<close> rebuild the
  chain \<open>c\<close>. Both end in \<open>TSR.from_dict\<close>, which looks for the key \<open>T0_w\<close> in the dict
  of the chain: when the reader returns the dict that the writer was given, the call
  raises KeyError, for every chain.
\<close>

theorem C8_chain_from_json_raises:
  "(json_loads cd (TSRChain_to_json cd c) = Inr (VDict (TSRChain_to_dict c))
     \<longrightarrow> TSRChain_from_json cd (TSRChain_to_json cd c) = Inl (KeyError ''T0_w''))
   \<and> (yaml_safe_load cd (TSRChain_to_yaml cd c) = Inr (VDict (TSRChain_to_dict c))
     \<longrightarrow> TSRChain_from_yaml cd (TSRChain_to_yaml cd c) = Inl (KeyError ''T0_w''))"
  by (simp add: TSRChain_from_json_def TSRChain_from_yaml_def from_dict_chain
      del: TSR_from_dict.simps)

theorem C8_chain_from_json_raises_witness:
  "TSRChain_from_json stub_codecs (TSRChain_to_json stub_codecs two_chain)
     = Inl (KeyError ''T0_w'')
   \<and> TSRChain_from_yaml stub_codecs (TSRChain_to_yaml stub_codecs two_chain)
     = Inl (KeyError ''T0_w'')"
  using C8_chain_from_json_raises [of stub_codecs two_chain]
  by (simp add: stub_codecs_def)

subsection \<open>is_valid of a chain\<close>

text \<open>The loop returns the checks \<open>cs\<close> exactly when every TSR has a vector at its
  index and its \<open>is_valid\<close> returns the check at that index.\<close>

lemma checks_from_Cons:
  "checks_from (t # ts) idx xs ign = Inr cs \<longleftrightarrow>
     idx < length xs \<and>
     (\<exists>c rest. cs = c # rest \<and> TSR_is_valid t (xs ! idx) ign = Inr c
        \<and> checks_from ts (Suc idx) xs ign = Inr rest)"
proof (cases "idx < length xs")
  case False
  then show ?thesis by (simp add: at1_def)
next
  case True
  show ?thesis
  proof (cases "TSR_is_valid t (xs ! idx) ign")
    case (Inl e)
    with True show ?thesis by (simp add: at1_def)
  next
    case (Inr c)
    with True show ?thesis
      by (cases "checks_from ts (Suc idx) xs ign") (auto simp: at1_def)
  qed
qed

lemma checks_from_iff:
  "checks_from ts idx xs ign = Inr cs \<longleftrightarrow>
     length cs = length ts \<and>
     (\<forall>i<length ts. idx + i < length xs
        \<and> TSR_is_valid (ts ! i) (xs ! (idx + i)) ign = Inr (cs ! i))"
proof (induction ts arbitrary: idx cs)
  case Nil
  then show ?case by auto
next
  case (Cons t ts)
  show ?case
  proof
    assume "checks_from (t # ts) idx xs ign = Inr cs"
    then obtain c rest where
      i: "idx < length xs" and cs: "cs = c # rest" and
      c: "TSR_is_valid t (xs ! idx) ign = Inr c" and
      r: "checks_from ts (Suc idx) xs ign = Inr rest"
      unfolding checks_from_Cons by blast
    from r Cons.IH [of "Suc idx" rest] have
      l: "length rest = length ts" and
      a: "\<And>i. i < length ts \<Longrightarrow> Suc idx + i < length xs
            \<and> TSR_is_valid (ts ! i) (xs ! (Suc idx + i)) ign = Inr (rest ! i)"
      by auto
    show "length cs = length (t # ts) \<and>
      (\<forall>i<length (t # ts). idx + i < length xs
         \<and> TSR_is_valid ((t # ts) ! i) (xs ! (idx + i)) ign = Inr (cs ! i))"
    proof (intro conjI allI impI)
      show "length cs = length (t # ts)" using cs l by simp
    next
      fix i assume "i < length (t # ts)"
      then show "idx + i < length xs" using i a by (cases i) auto
    next
      fix i assume "i < length (t # ts)"
      then show "TSR_is_valid ((t # ts) ! i) (xs ! (idx + i)) ign = Inr (cs ! i)"
        using cs c a by (cases i) auto
    qed
  next
    assume a: "length cs = length (t # ts) \<and>
      (\<forall>i<length (t # ts). idx + i < length xs
         \<and> TSR_is_valid ((t # ts) ! i) (xs ! (idx + i)) ign = Inr (cs ! i))"
    then obtain c rest where cs: "cs = c # rest" by (cases cs) auto
    from a have z: "idx + 0 < length xs
        \<and> TSR_is_valid ((t # ts) ! 0) (xs ! (idx + 0)) ign = Inr (cs ! 0)"
      by blast
    have "\<forall>i<length ts. Suc idx + i < length xs
        \<and> TSR_is_valid (ts ! i) (xs ! (Suc idx + i)) ign = Inr (rest ! i)"
    proof (intro allI impI)
      fix i assume "i < length ts"
      then have "Suc i < length (t # ts)" by simp
      with a have "idx + Suc i < length xs
          \<and> TSR_is_valid ((t # ts) ! Suc i) (xs ! (idx + Suc i)) ign = Inr (cs ! Suc i)"
        by blast
      with cs show "Suc idx + i < length xs
          \<and> TSR_is_valid (ts ! i) (xs ! (Suc idx + i)) ign = Inr (rest ! i)"
        by simp
    qed
    moreover from a cs have "length rest = length ts" by simp
    ultimately have "checks_from ts (Suc idx) xs ign = Inr rest"
      using Cons.IH [of "Suc idx" rest] by simp
    with z cs show "checks_from (t # ts) idx xs ign = Inr cs"
      unfolding checks_from_Cons by simp
  qed
qed

text \<open>
  C9. When the list of vectors is not as long as the chain, the chain's \<open>is_valid\<close>
  raises (the statement raises a string, so the exception is a TypeError) whatever the
  vectors and the TSRs are: no TSR's \<open>is_valid\<close> has a part in the result. When the
  lengths agree, it returns the list \<open>check\<close> exactly when \<open>check\<close> holds, at each
  index, what the \<open>is_valid\<close> of the TSR at that index returns for the vector at that
  index.
\<close>

theorem C9_chain_is_valid:
  "(length xyzrpy \<noteq> length (TSRs self) \<longrightarrow>
      TSRChain_is_valid self xyzrpy ignoreNAN
        = Inl (TypeError ''exceptions must derive from BaseException''))
   \<and> (length xyzrpy = length (TSRs self) \<longrightarrow>
        (TSRChain_is_valid self xyzrpy ignoreNAN = Inr check \<longleftrightarrow>
           length check = length (TSRs self) \<and>
           (\<forall>i<length (TSRs self).
              TSR_is_valid (TSRs self ! i) (xyzrpy ! i) ignoreNAN = Inr (check ! i))))"
proof (intro conjI impI)
  assume "length xyzrpy \<noteq> length (TSRs self)"
  then show "TSRChain_is_valid self xyzrpy ignoreNAN
      = Inl (TypeError ''exceptions must derive from BaseException'')"
    by (simp add: TSRChain_is_valid_def)
next
  assume l: "length xyzrpy = length (TSRs self)"
  then have "TSRChain_is_valid self xyzrpy ignoreNAN
      = checks_from (TSRs self) 0 xyzrpy ignoreNAN"
    by (simp add: TSRChain_is_valid_def)
  with l show "TSRChain_is_valid self xyzrpy ignoreNAN = Inr check \<longleftrightarrow>
      length check = length (TSRs self) \<and>
      (\<forall>i<length (TSRs self).
         TSR_is_valid (TSRs self ! i) (xyzrpy ! i) ignoreNAN = Inr (check ! i))"
    by (simp add: checks_from_iff)
qed

theorem C9_chain_is_valid_witness:
  "TSRChain_is_valid two_chain [zeros6] False
     = Inl (TypeError ''exceptions must derive from BaseException'')
   \<and> TSRChain_is_valid two_chain [zeros6, zeros6] False
     = Inr [[True, True, True, True, True, True], [True, True, True, True, True, True]]"
proof -
  let ?ok = "[True, True, True, True, True, True]"
  have each: "\<forall>i<length (TSRs two_chain).
      TSR_is_valid (TSRs two_chain ! i) ([zeros6, zeros6] ! i) False = Inr ([?ok, ?ok] ! i)"
    by (simp add: two_chain_def is_valid_default less_Suc_eq)
  have len: "length [zeros6, zeros6] = length (TSRs two_chain)"
    "length [zeros6] \<noteq> length (TSRs two_chain)"
    "length [?ok, ?ok] = length (TSRs two_chain)"
    by (simp_all add: two_chain_def)
  from C9_chain_is_valid [of "[zeros6]" two_chain False "[]"] len(2)
  have a: "TSRChain_is_valid two_chain [zeros6] False
     = Inl (TypeError ''exceptions must derive from BaseException'')"
    by blast
  from C9_chain_is_valid [of "[zeros6, zeros6]" two_chain False "[?ok, ?ok]"] len(1) len(3) each
  have b: "TSRChain_is_valid two_chain [zeros6, zeros6] False = Inr [?ok, ?ok]"
    by blast
  from a b show ?thesis by simp
qed

subsection \<open>to_transform of a chain\<close>

text \<open>The loop calls \<open>to_transform\<close> of the first TSR, which does not return: no call of
  the chain's \<open>to_transform\<close> returns a transform.\<close>

lemma transform_from_raises:
  "ts \<noteq> [] \<Longrightarrow> fst (transform_from ext T seen ts idx xs) \<noteq> Inr T'"
proof (cases ts)
  case Nil
  assume "ts \<noteq> []"
  with Nil show ?thesis by simp
next
  case (Cons t rest)
  show ?thesis
  proof (cases "at1 xs idx")
    case (Inl e)
    with Cons show ?thesis by simp
  next
    case (Inr x)
    obtain e where "TSR_to_transform ext (t\<lparr>T0_w := T\<rparr>) x = Inl e"
      using TSR_to_transform_raises [of ext "t\<lparr>T0_w := T\<rparr>" x]
      by (cases "TSR_to_transform ext (t\<lparr>T0_w := T\<rparr>) x") auto
    with Cons Inr show ?thesis by simp
  qed
qed

lemma chain_to_transform_raises: "fst (TSRChain_to_transform ext c xs) \<noteq> Inr T"
proof (cases "TSRChain_is_valid c xs False")
  case (Inl e)
  then show ?thesis by (simp add: TSRChain_to_transform_def)
next
  case (Inr check)
  show ?thesis
  proof (cases "list_all (\<lambda>c. list_all (\<lambda>b. b) c) check")
    case False
    with Inr show ?thesis by (simp add: TSRChain_to_transform_def)
  next
    case True
    show ?thesis
    proof (cases "TSRs c")
      case Nil
      with Inr True show ?thesis by (simp add: TSRChain_to_transform_def at1_def)
    next
      case (Cons t ts)
      obtain r ts' where l: "transform_from ext (T0_w t) [] (t # ts) 0 xs = (r, ts')"
        by (cases "transform_from ext (T0_w t) [] (t # ts) 0 xs") blast
      have "fst (transform_from ext (T0_w t) [] (t # ts) 0 xs) \<noteq> Inr T"
        by (rule transform_from_raises) simp
      with l have "r \<noteq> Inr T" by simp
      with Inr True Cons l show ?thesis
        by (simp add: TSRChain_to_transform_def at1_def del: transform_from.simps)
    qed
  qed
qed

text \<open>
  C10. For a chain without TSRs, \<open>is_valid\<close> accepts the empty list and returns the
  empty list of checks; \<open>to_transform\<close> of the empty list raises IndexError where it
  reads \<open>T0_w\<close> of the first TSR, and so do \<open>sample\<close> and the objective that
  \<open>distance\<close> hands to the optimizer, at the empty point at which the optimizer starts.
\<close>

theorem C10_empty_chain:
  assumes "TSRs self = []"
  shows "TSRChain_is_valid self [] ignoreNAN = Inr []
    \<and> TSRChain_to_transform ext self [] = (Inl IndexError, self)
    \<and> TSRChain_sample ext rng k self None = ((Inl IndexError, self), k)
    \<and> chain_objective ext self transform [] = Inl IndexError"
proof -
  have v: "TSRChain_is_valid self [] ignoreNAN = Inr []" for ignoreNAN
    using assms by (simp add: TSRChain_is_valid_def)
  have t: "TSRChain_to_transform ext self [] = (Inl IndexError, self)"
    using assms by (simp add: TSRChain_to_transform_def v at1_def)
  have s: "TSRChain_sample ext rng k self None = ((Inl IndexError, self), k)"
    using assms by (simp add: TSRChain_sample_def TSRChain_sample_xyzrpy_def t)
  have d: "chain_objective ext self transform [] = Inl IndexError"
    using assms by (simp add: chain_objective_def reshape6_def t)
  from v t s d show ?thesis by simp
qed

theorem C10_empty_chain_witness:
  "TSRChain_is_valid empty_chain [] False = Inr []
    \<and> TSRChain_to_transform stub_externals empty_chain [] = (Inl IndexError, empty_chain)
    \<and> TSRChain_sample stub_externals (\<lambda>_. 3/4) 0 empty_chain None
        = ((Inl IndexError, empty_chain), 0)
    \<and> chain_objective stub_externals empty_chain eye4 [] = Inl IndexError"
  using C10_empty_chain [of empty_chain False stub_externals "\<lambda>_. 3/4" 0 eye4]
  by (simp add: empty_chain_def)

end
